theory Spec2Isabelle
  imports Complex_Main "HOL-Library.Sublist"
begin

section \<open>The caching reverse proxy \<^verbatim>\<open>revproxy.py\<close>\<close>

text \<open>
  The program keeps no state of its own: everything it knows is read from the cache
  directory. The model therefore passes the filesystem explicitly. Every function takes
  the filesystem it finds and returns the filesystem it leaves, together with what it
  returned or raised and with the list of its externally visible actions (sleeps, HTTP
  requests, downloads handed to a worker thread).

  Clock readings and durations are Python floats in the source; they are modelled as real
  numbers, so rounding is not part of the model.
\<close>

subsection \<open>Paths\<close>

type_synonym path = string
type_synonym bytes = string

text \<open>\<^verbatim>\<open>p.rfind('/') + 1\<close>: the position after the last separator, 0 when there is none.\<close>

definition rfind_sep :: "path \<Rightarrow> nat" where
  "rfind_sep p = length p - length (takeWhile (\<lambda>c. c \<noteq> CHR ''/'') (rev p))"

text \<open>\<^verbatim>\<open>head.rstrip('/')\<close>\<close>

definition rstrip_sep :: "string \<Rightarrow> string" where
  "rstrip_sep s = rev (dropWhile (\<lambda>c. c = CHR ''/'') (rev s))"

text \<open>
  \<^verbatim>\<open>os.path.dirname\<close> (posixpath): everything up to the last separator, with the
  trailing separators removed unless the head consists of separators only.
\<close>

definition dirname :: "path \<Rightarrow> path" where
  "dirname p =
     (let head = take (rfind_sep p) p
      in if head \<noteq> [] \<and> head \<noteq> replicate (length head) (CHR ''/'')
         then rstrip_sep head else head)"



subsection \<open>The filesystem\<close>

text \<open>
  A filesystem maps a path to a directory or to a regular file. The payload of a file is
  what the function under study reads from it: its bytes for the downloader, its
  \<^verbatim>\<open>stat\<close> record for the sweep. Links, permissions and the equivalence of different
  spellings of one path are not modelled: a path is the string the program uses.

  A system call fails for the structural reasons a POSIX system gives: the path is
  missing, it is a directory where a file is needed, or the directory that should hold a
  new file is missing or is a file.
\<close>

datatype 'a node = Dir | File 'a

type_synonym 'a fs = "path \<rightharpoonup> 'a node"

datatype errno = EEXIST | ENOENT | ENOTDIR | EISDIR | EACCES | EROFS

definition isfile :: "'a fs \<Rightarrow> path \<Rightarrow> bool" where
  "isfile fs p = (case fs p of Some (File _) \<Rightarrow> True | _ \<Rightarrow> False)"

definition isdir :: "'a fs \<Rightarrow> path \<Rightarrow> bool" where
  "isdir fs p = (case fs p of Some Dir \<Rightarrow> True | _ \<Rightarrow> False)"

text \<open>
  The error, if any, of creating a new entry at \<open>p\<close> because of the directory that should
  hold it. An empty \<open>dirname\<close> is the current directory, which always exists.
\<close>

definition parent_err :: "'a fs \<Rightarrow> path \<Rightarrow> errno option" where
  "parent_err fs p =
     (let d = dirname p
      in if d = [] then None
         else case fs d of
                Some Dir \<Rightarrow> None
              | Some (File _) \<Rightarrow> Some ENOTDIR
              | None \<Rightarrow> Some ENOENT)"

text \<open>\<^verbatim>\<open>os.unlink(p)\<close>\<close>

definition unlink :: "'a fs \<Rightarrow> path \<Rightarrow> errno + 'a fs" where
  "unlink fs p =
     (case fs p of
        None \<Rightarrow> Inl ENOENT
      | Some Dir \<Rightarrow> Inl EISDIR
      | Some (File _) \<Rightarrow> Inr (fs(p := None)))"



text \<open>\<^verbatim>\<open>os.stat(p).st_size\<close> on a filesystem whose files carry their bytes. The size a
  system reports for a directory is not modelled and is taken to be 0.\<close>

definition stat_size :: "bytes fs \<Rightarrow> path \<Rightarrow> errno + nat" where
  "stat_size fs p =
     (case fs p of
        None \<Rightarrow> Inl ENOENT
      | Some Dir \<Rightarrow> Inr 0
      | Some (File b) \<Rightarrow> Inr (length b))"

text \<open>\<^verbatim>\<open>with open(p, "wb"): pass\<close>: create the file, or truncate it, and write nothing.\<close>

definition open_wb :: "bytes fs \<Rightarrow> path \<Rightarrow> errno + bytes fs" where
  "open_wb fs p =
     (case fs p of
        Some Dir \<Rightarrow> Inl EISDIR
      | Some (File _) \<Rightarrow> Inr (fs(p \<mapsto> File []))
      | None \<Rightarrow> (case parent_err fs p of
                   Some e \<Rightarrow> Inl e
                 | None \<Rightarrow> Inr (fs(p \<mapsto> File []))))"

text \<open>\<^verbatim>\<open>with open(p, "ab") as f: f.write(data)\<close>: append, creating the file when it is
  missing.\<close>

definition open_ab :: "bytes fs \<Rightarrow> path \<Rightarrow> bytes \<Rightarrow> errno + bytes fs" where
  "open_ab fs p data =
     (case fs p of
        Some Dir \<Rightarrow> Inl EISDIR
      | Some (File b) \<Rightarrow> Inr (fs(p \<mapsto> File (b @ data)))
      | None \<Rightarrow> (case parent_err fs p of
                   Some e \<Rightarrow> Inl e
                 | None \<Rightarrow> Inr (fs(p \<mapsto> File data))))"

text \<open>
  \<^verbatim>\<open>os.rename(src, dst)\<close> of a regular file: the target is replaced in one step. The
  program only renames the regular file it has just written; renaming a directory is
  not modelled and is reported as an error.
\<close>

definition rename :: "'a fs \<Rightarrow> path \<Rightarrow> path \<Rightarrow> errno + 'a fs" where
  "rename fs src dst =
     (case fs src of
        None \<Rightarrow> Inl ENOENT
      | Some Dir \<Rightarrow> Inl EISDIR
      | Some (File b) \<Rightarrow>
          (case fs dst of
             Some Dir \<Rightarrow> Inl EISDIR
           | Some (File _) \<Rightarrow> Inr ((fs(src := None))(dst \<mapsto> File b))
           | None \<Rightarrow> (case parent_err fs dst of
                        Some e \<Rightarrow> Inl e
                      | None \<Rightarrow> Inr ((fs(src := None))(dst \<mapsto> File b)))))"

subsection \<open>Configuration, results, actions\<close>

text \<open>The four integer entries of \<^verbatim>\<open>CONF\<close> that the modelled functions read.\<close>

record conf =
  HTTP_CONN_RETRIES :: int
  HTTP_TIMEOUT_SEC :: int
  CACHE_INDEX_DURATION :: int
  CACHE_FILE_DURATION :: int

text \<open>The defaults of the source.\<close>

definition CONF :: conf where
  "CONF = \<lparr>HTTP_CONN_RETRIES = 20, HTTP_TIMEOUT_SEC = 15,
           CACHE_INDEX_DURATION = 60, CACHE_FILE_DURATION = 1209600\<rparr>"

datatype GetRes = CACHE_HIT | END_WAIT | END_FETCH | MUST_WAIT

text \<open>
  What a call did: it returned a value, it raised an \<^verbatim>\<open>OSError\<close> that nothing caught,
  or it was still suspended when the observed run of the environment ended.
\<close>

datatype 'a outcome = Returns 'a | Raises errno | Suspended

text \<open>
  The visible actions: \<^verbatim>\<open>time.sleep(s)\<close>, \<^verbatim>\<open>requests.get(url, timeout, Range)\<close>,
  the one-second \<^verbatim>\<open>deferLater\<close> of the wait loop, and
  \<^verbatim>\<open>deferToThread(robust_get_sync, url, dest, dest_tmp)\<close>. A \<^verbatim>\<open>Range\<close> header
  \<^verbatim>\<open>bytes=a-b\<close> is the pair \<open>(a, b)\<close>.
\<close>

datatype event =
    Sleep real
  | Get string int "(int \<times> int) option"
  | DeferLater real
  | DeferToThread string path path

record 'a run =
  outcome :: "'a outcome"
  final_fs :: "bytes fs"
  trace :: "event list"

definition after :: "event list \<Rightarrow> 'a run \<Rightarrow> 'a run" where
  "after evs r = r\<lparr>trace := evs @ trace r\<rparr>"

subsection \<open>\<^verbatim>\<open>robust_get_sync\<close>\<close>

text \<open>
  What the backend does with one request. Either \<^verbatim>\<open>requests.get\<close> raises a
  \<^verbatim>\<open>RequestException\<close>, which may carry a response with a status code, or it returns a
  response: its status code, its \<^verbatim>\<open>Content-Length\<close> header if there is one, the chunks
  that \<^verbatim>\<open>iter_content\<close> yields, and whether the stream then ends normally
  (\<open>False\<close>: \<^verbatim>\<open>iter_content\<close> raises a \<^verbatim>\<open>RequestException\<close> after these chunks).
\<close>

datatype reply =
    Fails "int option"
  | Response int "int option" "bytes list" bool

text \<open>The exceptions of one attempt. \<^verbatim>\<open>RequestException\<close> carries the status code of
  its response, if it has one.\<close>

datatype exn = RequestException "int option" | OSError errno

text \<open>The state that one iteration of the loop leaves: the exception that ended the
  \<^verbatim>\<open>try\<close> block (\<open>None\<close>: it reached \<^verbatim>\<open>return True\<close>), the value of
  \<^verbatim>\<open>size_final\<close>, the filesystem, and the requests made.\<close>

record attempt_result =
  raised :: "exn option"
  size_final_after :: int
  fs_after :: "bytes fs"
  requests :: "event list"

text \<open>\<^verbatim>\<open>int(resp.headers.get("Content-Length", "-1"))\<close>\<close>

definition size_partial_of :: "int option \<Rightarrow> int" where
  "size_partial_of cl = (case cl of None \<Rightarrow> - 1 | Some n \<Rightarrow> n)"

text \<open>What the loop over \<^verbatim>\<open>iter_content\<close> writes: the chunks that are not empty.\<close>

definition received :: "bytes list \<Rightarrow> bytes" where
  "received chunks = concat (filter (\<lambda>chunk. chunk \<noteq> []) chunks)"

text \<open>The \<^verbatim>\<open>try\<close> block of one attempt (lines 116 to 142).\<close>

definition try_block ::
  "conf \<Rightarrow> reply \<Rightarrow> string \<Rightarrow> path \<Rightarrow> path \<Rightarrow> int \<Rightarrow> bytes fs \<Rightarrow> attempt_result" where
  "try_block c rep url dest dest_tmp size_final fs =
     (case stat_size fs dest_tmp of
        Inl e \<Rightarrow> \<lparr>raised = Some (OSError e), size_final_after = size_final,
                  fs_after = fs, requests = []\<rparr>
      | Inr size_ondisk \<Rightarrow>
          (let range_header =
                 (if size_final \<noteq> - 1 then Some (int size_ondisk, size_final) else None);
               reqs = [Get url (HTTP_TIMEOUT_SEC c) range_header]
           in case rep of
                Fails resp \<Rightarrow>
                  \<lparr>raised = Some (RequestException resp), size_final_after = size_final,
                   fs_after = fs, requests = reqs\<rparr>
              | Response status_code cl chunks finished \<Rightarrow>
                  (let size_partial = size_partial_of cl;
                       size_final' = (if size_final = - 1 then size_partial else size_final)
                   in if 400 \<le> status_code \<and> status_code < 600
                      then \<lparr>raised = Some (RequestException (Some status_code)),
                            size_final_after = size_final', fs_after = fs, requests = reqs\<rparr>
                      else
                        (case open_ab fs dest_tmp (received chunks) of
                           Inl e \<Rightarrow> \<lparr>raised = Some (OSError e), size_final_after = size_final',
                                     fs_after = fs, requests = reqs\<rparr>
                         | Inr fs1 \<Rightarrow>
                             (let size_downloaded = int (length (received chunks))
                              in if \<not> finished
                                 then \<lparr>raised = Some (RequestException None),
                                       size_final_after = size_final', fs_after = fs1,
                                       requests = reqs\<rparr>
                                 else if size_partial \<noteq> size_downloaded \<and> size_partial \<noteq> - 1
                                 then \<lparr>raised = Some (RequestException None),
                                       size_final_after = size_final', fs_after = fs1,
                                       requests = reqs\<rparr>
                                 else
                                   (case rename fs1 dest_tmp dest of
                                      Inl e \<Rightarrow> \<lparr>raised = Some (OSError e),
                                                size_final_after = size_final',
                                                fs_after = fs1, requests = reqs\<rparr>
                                    | Inr fs2 \<Rightarrow> \<lparr>raised = None,
                                                  size_final_after = size_final',
                                                  fs_after = fs2, requests = reqs\<rparr>))))))"

text \<open>\<^verbatim>\<open>exc.response.status_code\<close>, or \<open>-1\<close> when the exception has no response.\<close>

definition status_code_of :: "int option \<Rightarrow> int" where
  "status_code_of resp = (case resp of Some s \<Rightarrow> s | None \<Rightarrow> - 1)"

text \<open>Giving up (lines 150 to 156): write the marker, remove the temporary file if that
  works, return \<^verbatim>\<open>False\<close>. An error of writing the marker is not caught.\<close>

definition give_up :: "path \<Rightarrow> path \<Rightarrow> bytes fs \<Rightarrow> bool run" where
  "give_up dest dest_tmp fs =
     (case open_wb fs (dest @ ''.404'') of
        Inl e \<Rightarrow> \<lparr>outcome = Raises e, final_fs = fs, trace = []\<rparr>
      | Inr fs1 \<Rightarrow>
          \<lparr>outcome = Returns False,
           final_fs = (case unlink fs1 dest_tmp of Inl _ \<Rightarrow> fs1 | Inr fs2 \<Rightarrow> fs2),
           trace = []\<rparr>)"

text \<open>\<^verbatim>\<open>pause_sec = 0.4 * (1.4 ** (i - 1))\<close>, for \<open>i > 0\<close>.\<close>

definition pause_sec :: "nat \<Rightarrow> real" where
  "pause_sec i = 0.4 * 1.4 ^ (i - 1)"

text \<open>
  The loop \<^verbatim>\<open>for i in range(CONF["HTTP_CONN_RETRIES"])\<close>, entered at iteration \<open>i\<close> with
  the current \<^verbatim>\<open>size_final\<close> and filesystem. \<open>backend i\<close> is what the backend does with
  the request of iteration \<open>i\<close>.
\<close>

function attempts ::
  "conf \<Rightarrow> (nat \<Rightarrow> reply) \<Rightarrow> string \<Rightarrow> path \<Rightarrow> path \<Rightarrow> nat \<Rightarrow> int \<Rightarrow> bytes fs \<Rightarrow> bool run" where
  "attempts c backend url dest dest_tmp i size_final fs =
     (if int i < HTTP_CONN_RETRIES c
      then
        (let pause = (if i > 0 then [Sleep (pause_sec i)] else []);
             a = try_block c (backend i) url dest dest_tmp size_final fs
         in after (pause @ requests a)
              (case raised a of
                 None \<Rightarrow> \<lparr>outcome = Returns True, final_fs = fs_after a, trace = []\<rparr>
               | Some (OSError e) \<Rightarrow> \<lparr>outcome = Raises e, final_fs = fs_after a, trace = []\<rparr>
               | Some (RequestException resp) \<Rightarrow>
                   (if status_code_of resp = 404 \<or> int i = HTTP_CONN_RETRIES c - 1
                    then give_up dest dest_tmp (fs_after a)
                    else attempts c backend url dest dest_tmp (Suc i)
                           (size_final_after a) (fs_after a))))
      else \<lparr>outcome = Returns False, final_fs = fs, trace = []\<rparr>)"
  by pat_completeness auto
termination
  by (relation "measure (\<lambda>(c, backend, url, dest, dest_tmp, i, size_final, fs).
                  nat (HTTP_CONN_RETRIES c - int i))") auto

declare attempts.simps [simp del]

definition robust_get_sync ::
  "conf \<Rightarrow> (nat \<Rightarrow> reply) \<Rightarrow> string \<Rightarrow> path \<Rightarrow> path \<Rightarrow> bytes fs \<Rightarrow> bool run" where
  "robust_get_sync c backend url dest dest_tmp fs =
     attempts c backend url dest dest_tmp 0 (- 1) fs"


subsection \<open>\<^verbatim>\<open>robust_get\<close>\<close>

text \<open>
  What \<^verbatim>\<open>robust_get\<close> cannot decide itself comes from its environment:
  \<^item> \<open>os_makedirs\<close>: \<^verbatim>\<open>os.makedirs\<close> of the operating system, which gives the error it
    raised, if any, and the filesystem as it is when the call ends (a failed call may have
    created some directories, and other processes work on the same tree);
  \<^item> \<open>server\<close>: what the backend does with the request of each attempt;
  \<^item> \<open>clock0\<close>: the reading of \<^verbatim>\<open>time.time()\<close> when waiting starts;
  \<^item> \<open>wakeups\<close>: for each time the wait loop is resumed after its one-second
    \<^verbatim>\<open>deferLater\<close>, the reading of \<^verbatim>\<open>time.time()\<close> and the filesystem it then finds.
    The list is the observed part of a run: when it is used up and the loop has not ended,
    the call is \<open>Suspended\<close>.
\<close>

record env =
  os_makedirs :: "bytes fs \<Rightarrow> path \<Rightarrow> errno option \<times> bytes fs"
  server :: "nat \<Rightarrow> reply"
  clock0 :: real
  wakeups :: "(real \<times> bytes fs) list"

text \<open>The truth value of \<^verbatim>\<open>wait_timeout\<close> in \<^verbatim>\<open>if wait_timeout\<close>: \<^verbatim>\<open>None\<close> and
  \<open>0\<close> are false.\<close>

definition truthy :: "real option \<Rightarrow> bool" where
  "truthy wait_timeout = (case wait_timeout of None \<Rightarrow> False | Some d \<Rightarrow> d \<noteq> 0)"

text \<open>\<^verbatim>\<open>wait_timeout and time.time() - time0 > wait_timeout\<close>\<close>

definition timed_out :: "real option \<Rightarrow> real \<Rightarrow> real \<Rightarrow> bool" where
  "timed_out wait_timeout time0 now =
     (case wait_timeout of None \<Rightarrow> False | Some d \<Rightarrow> d \<noteq> 0 \<and> now - time0 > d)"

text \<open>The loop \<^verbatim>\<open>while os.path.isfile(dest_tmp)\<close> (lines 78 to 82).\<close>

fun wait_loop ::
  "real option \<Rightarrow> real \<Rightarrow> path \<Rightarrow> bytes fs \<Rightarrow> (real \<times> bytes fs) list \<Rightarrow> GetRes run" where
  "wait_loop wait_timeout time0 dest_tmp fs [] =
     (if isfile fs dest_tmp
      then \<lparr>outcome = Suspended, final_fs = fs, trace = [DeferLater 1]\<rparr>
      else \<lparr>outcome = Returns END_WAIT, final_fs = fs, trace = []\<rparr>)"
| "wait_loop wait_timeout time0 dest_tmp fs ((now, fs') # rest) =
     (if isfile fs dest_tmp
      then after [DeferLater 1]
             (if timed_out wait_timeout time0 now
              then \<lparr>outcome = Returns MUST_WAIT, final_fs = fs', trace = []\<rparr>
              else wait_loop wait_timeout time0 dest_tmp fs' rest)
      else \<lparr>outcome = Returns END_WAIT, final_fs = fs, trace = []\<rparr>)"

text \<open>Lines 85 to 90: the error that \<^verbatim>\<open>robust_get\<close> raises again, if any, and the
  filesystem after \<^verbatim>\<open>os.makedirs\<close>.\<close>

definition ensure_dir :: "env \<Rightarrow> bytes fs \<Rightarrow> path \<Rightarrow> errno option \<times> bytes fs" where
  "ensure_dir e fs dest_dir =
     (case os_makedirs e fs dest_dir of
        (None, fs1) \<Rightarrow> (None, fs1)
      | (Some exc_errno, fs1) \<Rightarrow>
          (if \<not> isdir fs1 dest_dir \<or> exc_errno \<noteq> EEXIST
           then (Some exc_errno, fs1) else (None, fs1)))"

text \<open>
  \<^verbatim>\<open>robust_get(url, dest, wait_timeout)\<close>. With a timeout the download is handed to the
  worker thread and the call returns at once: the run ends with the placeholder created
  and the \<open>DeferToThread\<close> action. Without one the call awaits the download, and the run
  contains it.
\<close>

definition robust_get ::
  "conf \<Rightarrow> env \<Rightarrow> string \<Rightarrow> path \<Rightarrow> real option \<Rightarrow> bytes fs \<Rightarrow> GetRes run" where
  "robust_get c e url dest wait_timeout fs =
     (if isfile fs (dest @ ''.404'')
      then \<lparr>outcome = Returns CACHE_HIT, final_fs = fs, trace = []\<rparr>
      else if isfile fs dest
      then \<lparr>outcome = Returns CACHE_HIT, final_fs = fs, trace = []\<rparr>
      else
        (let dest_tmp = dest @ ''.tmp''
         in if isfile fs dest_tmp
            then wait_loop wait_timeout (clock0 e) dest_tmp fs (wakeups e)
            else
              (let dest_dir = dirname dest
               in case ensure_dir e fs dest_dir of
                    (Some exc_errno, fs1) \<Rightarrow>
                      \<lparr>outcome = Raises exc_errno, final_fs = fs1, trace = []\<rparr>
                  | (None, fs1) \<Rightarrow>
                      (case open_wb fs1 dest_tmp of
                         Inl exc_errno \<Rightarrow>
                           \<lparr>outcome = Raises exc_errno, final_fs = fs1, trace = []\<rparr>
                       | Inr fs2 \<Rightarrow>
                           after [DeferToThread url dest dest_tmp]
                             (if truthy wait_timeout
                              then \<lparr>outcome = Returns MUST_WAIT, final_fs = fs2, trace = []\<rparr>
                              else
                                (let d = robust_get_sync c (server e) url dest dest_tmp fs2
                                 in case outcome d of
                                      Returns _ \<Rightarrow>
                                        \<lparr>outcome = Returns END_FETCH,
                                         final_fs = final_fs d, trace = trace d\<rparr>
                                    | Raises exc_errno \<Rightarrow>
                                        \<lparr>outcome = Raises exc_errno,
                                         final_fs = final_fs d, trace = trace d\<rparr>
                                    | Suspended \<Rightarrow>
                                        \<lparr>outcome = Suspended,
                                         final_fs = final_fs d, trace = trace d\<rparr>))))))"

text \<open>
  A sequence of calls for one resource, each in its own environment and with its own
  timeout, each finding the filesystem the one before left. It gives the runs in order.
\<close>

fun fetch_seq ::
  "conf \<Rightarrow> string \<Rightarrow> path \<Rightarrow> (env \<times> real option) list \<Rightarrow> bytes fs \<Rightarrow> GetRes run list" where
  "fetch_seq c url dest [] fs = []"
| "fetch_seq c url dest ((e, wait_timeout) # calls) fs =
     (let r = robust_get c e url dest wait_timeout fs
      in r # fetch_seq c url dest calls (final_fs r))"

text \<open>
  Two operating systems for the examples. \<open>mkdir\<close> is the system call. \<open>makedirs_leaf\<close> is
  \<^verbatim>\<open>os.makedirs\<close> where every directory above the last one exists: it is \<open>mkdir\<close> of the
  last one. \<open>makedirs_rofs\<close> is \<^verbatim>\<open>os.makedirs\<close> on a read-only filesystem of a system
  that reports \<^verbatim>\<open>EROFS\<close> before it looks at the target.
\<close>

definition mkdir :: "'a fs \<Rightarrow> path \<Rightarrow> errno + 'a fs" where
  "mkdir fs p =
     (if p = [] then Inl ENOENT
      else case fs p of
             Some _ \<Rightarrow> Inl EEXIST
           | None \<Rightarrow> (case parent_err fs p of
                        Some e \<Rightarrow> Inl e
                      | None \<Rightarrow> Inr (fs(p \<mapsto> Dir))))"

definition makedirs_leaf :: "bytes fs \<Rightarrow> path \<Rightarrow> errno option \<times> bytes fs" where
  "makedirs_leaf fs p = (case mkdir fs p of Inl e \<Rightarrow> (Some e, fs) | Inr fs' \<Rightarrow> (None, fs'))"

definition makedirs_rofs :: "bytes fs \<Rightarrow> path \<Rightarrow> errno option \<times> bytes fs" where
  "makedirs_rofs fs p = (Some EROFS, fs)"

subsection \<open>\<^verbatim>\<open>clean_cache\<close>\<close>

text \<open>\<^verbatim>\<open>int(x)\<close> of a float: rounding towards zero.\<close>

definition py_int :: "real \<Rightarrow> int" where
  "py_int x = (if 0 \<le> x then \<lfloor>x\<rfloor> else \<lceil>x\<rceil>)"








subsection \<open>Notions used in the statements\<close>




text \<open>The \<^verbatim>\<open>Range\<close> headers of the requests of a run, in order (\<open>None\<close>: a request with
  no such header).\<close>

definition ranges :: "event list \<Rightarrow> (int \<times> int) option list" where
  "ranges evs = concat (map (\<lambda>ev. case ev of Get _ _ range_header \<Rightarrow> [range_header] | _ \<Rightarrow> []) evs)"

text \<open>The length that a reply reports: the value of \<^verbatim>\<open>size_partial\<close> for a response,
  and \<open>-1\<close> when there is no response.\<close>

definition reported :: "reply \<Rightarrow> int" where
  "reported rep =
     (case rep of Fails _ \<Rightarrow> - 1 | Response status_code cl chunks finished \<Rightarrow> size_partial_of cl)"

text \<open>Of a list of \<^verbatim>\<open>Range\<close> headers: the first \<open>k + 1\<close> are absent, and every later
  one ends at \<open>tot\<close>.\<close>

definition full_then_ranged :: "nat \<Rightarrow> int \<Rightarrow> (int \<times> int) option list \<Rightarrow> bool" where
  "full_then_ranged k tot rs =
     (take (Suc k) rs = replicate (min (Suc k) (length rs)) None \<and>
      list_all (\<lambda>rh. map_option snd rh = Some tot) (drop (Suc k) rs))"

subsection \<open>Inputs of the examples\<close>

text \<open>A cache directory with one placeholder, a backend that never answers, and an
  environment with this backend in which nothing else happens.\<close>

definition down :: "nat \<Rightarrow> reply" where
  "down i = Fails None"



text \<open>A backend that cannot be reached at first, then sends 4 bytes of 10 before the
  stream breaks, then sends the other 6.\<close>

definition late :: "nat \<Rightarrow> reply" where
  "late i = (if i = 0 then Fails None
             else if i = 1 then Response 200 (Some 10) [''abcd''] False
             else Response 206 (Some 6) [''efghij''] True)"

definition fs0 :: "bytes fs" where
  "fs0 = [''d'' \<mapsto> Dir, ''d/f.tmp'' \<mapsto> File []]"

definition env0 :: env where
  "env0 = \<lparr>os_makedirs = makedirs_leaf, server = down, clock0 = 0, wakeups = []\<rparr>"



text \<open>An environment on the read-only filesystem.\<close>

definition env_rofs :: env where
  "env_rofs = \<lparr>os_makedirs = makedirs_rofs, server = down, clock0 = 0, wakeups = []\<rparr>"




section \<open>Properties\<close>

subsection \<open>Runs, paths and the parts of an attempt\<close>

lemma outcome_after [simp]: "outcome (after evs r) = outcome r"
  and final_fs_after [simp]: "final_fs (after evs r) = final_fs r"
  and trace_after [simp]: "trace (after evs r) = evs @ trace r"
  by (simp_all add: after_def)

lemma after_after [simp]: "after xs (after ys r) = after (xs @ ys) r"
  by (simp add: after_def)







lemma trace_give_up [simp]: "trace (give_up dest dest_tmp fs) = []"
  by (simp add: give_up_def split: sum.splits)


subsection \<open>Cache hits\<close>

lemma fetch_seq_cache_hit:
  "isfile fs (dest @ ''.404'') \<or> isfile fs dest \<Longrightarrow>
   fetch_seq c url dest calls fs =
     replicate (length calls) \<lparr>outcome = Returns CACHE_HIT, final_fs = fs, trace = []\<rparr>"
  by (induction calls) (auto simp: robust_get_def Let_def)

text \<open>
  C1. When the failure marker \<open>dest.404\<close> or the final file \<open>dest\<close> is a file,
  \<open>robust_get\<close> returns \<open>CACHE_HIT\<close> with no action at all (no request, no download
  started, no sleep) and leaves the filesystem as it found it. Nothing is assumed about
  the placeholder \<open>dest.tmp\<close>, so this holds when it exists too. Hence every call of a
  sequence of calls does the same, whatever its environment and timeout.
\<close>

theorem cache_hit_is_immediate:
  assumes "isfile fs (dest @ ''.404'') \<or> isfile fs dest"
  shows "robust_get c e url dest wait_timeout fs =
           \<lparr>outcome = Returns CACHE_HIT, final_fs = fs, trace = []\<rparr> \<and>
         fetch_seq c url dest calls fs =
           replicate (length calls) \<lparr>outcome = Returns CACHE_HIT, final_fs = fs, trace = []\<rparr>"
  using assms fetch_seq_cache_hit [of fs dest c url calls] by (auto simp: robust_get_def)

theorem cache_hit_is_immediate_witness:
  "isfile [''d/f'' \<mapsto> File ''abc'', ''d/f.tmp'' \<mapsto> File ''ab''] ''d/f.tmp'' \<and>
   robust_get CONF env0 ''u'' ''d/f'' (Some 12)
       [''d/f'' \<mapsto> File ''abc'', ''d/f.tmp'' \<mapsto> File ''ab''] =
     \<lparr>outcome = Returns CACHE_HIT,
      final_fs = [''d/f'' \<mapsto> File ''abc'', ''d/f.tmp'' \<mapsto> File ''ab''], trace = []\<rparr> \<and>
   fetch_seq CONF ''u'' ''d/f'' [(env0, Some 12), (env0, None)]
       [''d/f'' \<mapsto> File ''abc'', ''d/f.tmp'' \<mapsto> File ''ab''] =
     [\<lparr>outcome = Returns CACHE_HIT,
       final_fs = [''d/f'' \<mapsto> File ''abc'', ''d/f.tmp'' \<mapsto> File ''ab''], trace = []\<rparr>,
      \<lparr>outcome = Returns CACHE_HIT,
       final_fs = [''d/f'' \<mapsto> File ''abc'', ''d/f.tmp'' \<mapsto> File ''ab''], trace = []\<rparr>]"
proof -
  have final: "isfile [''d/f'' \<mapsto> File ''abc'', ''d/f.tmp'' \<mapsto> File ''ab''] (''d/f'' @ ''.404'') \<or>
               isfile [''d/f'' \<mapsto> File ''abc'', ''d/f.tmp'' \<mapsto> File ''ab''] ''d/f''"
    by (simp add: isfile_def)
  have tmp: "isfile [''d/f'' \<mapsto> File ''abc'', ''d/f.tmp'' \<mapsto> File ''ab''] ''d/f.tmp''"
    by (simp add: isfile_def)
  from tmp cache_hit_is_immediate [OF final, of CONF env0 "''u''" "Some 12"
      "[(env0, Some 12), (env0, None)]"]
  show ?thesis by (simp del: fetch_seq.simps)
qed

subsection \<open>No retries configured\<close>

text \<open>
  C10. With a retry count of 0 (or less) \<open>robust_get_sync\<close> returns \<open>False\<close> with no
  action, so without any request, and leaves the filesystem as it found it: no marker
  \<open>dest.404\<close> is written and the temporary file is not removed.
\<close>

theorem no_retries_no_attempt:
  "HTTP_CONN_RETRIES c \<le> 0 \<Longrightarrow>
     robust_get_sync c backend url dest dest_tmp fs =
       \<lparr>outcome = Returns False, final_fs = fs, trace = []\<rparr>"
  by (simp add: robust_get_sync_def attempts.simps)

theorem no_retries_no_attempt_witness:
  "HTTP_CONN_RETRIES (CONF\<lparr>HTTP_CONN_RETRIES := 0\<rparr>) \<le> 0 \<and>
   isfile [''d/f.tmp'' \<mapsto> File ''ab''] ''d/f.tmp'' \<and>
   \<not> isfile [''d/f.tmp'' \<mapsto> File ''ab''] ''d/f.404'' \<and>
   robust_get_sync (CONF\<lparr>HTTP_CONN_RETRIES := 0\<rparr>) (\<lambda>i. Fails None) ''u'' ''d/f'' ''d/f.tmp''
       [''d/f.tmp'' \<mapsto> File ''ab''] =
     \<lparr>outcome = Returns False, final_fs = [''d/f.tmp'' \<mapsto> File ''ab''], trace = []\<rparr>"
  using no_retries_no_attempt [of "CONF\<lparr>HTTP_CONN_RETRIES := 0\<rparr>" "\<lambda>i. Fails None" "''u''"
      "''d/f''" "''d/f.tmp''" "[''d/f.tmp'' \<mapsto> File ''ab'']"]
  by (simp add: isfile_def)

subsection \<open>The rule for a failed attempt\<close>



subsection \<open>A backend that always fails\<close>












subsection \<open>Validation of the body, and success\<close>








subsection \<open>The request of an attempt and the expected total\<close>

lemma ranges_append [simp]: "ranges (xs @ ys) = ranges xs @ ranges ys"
  by (simp add: ranges_def)

lemma ranges_simps [simp]:
  "ranges [] = []"
  "ranges (Sleep s # evs) = ranges evs"
  "ranges (Get url t rh # evs) = rh # ranges evs"
  by (simp_all add: ranges_def)

lemma try_block_requests:
  "requests (try_block c rep url dest dest_tmp sf fs) =
     (case stat_size fs dest_tmp of
        Inl _ \<Rightarrow> []
      | Inr n \<Rightarrow> [Get url (HTTP_TIMEOUT_SEC c) (if sf \<noteq> - 1 then Some (int n, sf) else None)])"
  by (auto simp: try_block_def Let_def split: sum.splits reply.splits)

lemma try_block_size_final:
  "size_final_after (try_block c rep url dest dest_tmp sf fs) =
     (case stat_size fs dest_tmp of
        Inl _ \<Rightarrow> sf
      | Inr n \<Rightarrow> if sf = - 1 then reported rep else sf)"
  by (auto simp: try_block_def Let_def reported_def split: sum.splits reply.splits)

lemma try_block_stat_fails:
  "stat_size fs dest_tmp = Inl e \<Longrightarrow>
   raised (try_block c rep url dest dest_tmp sf fs) = Some (OSError e)"
  by (simp add: try_block_def)

text \<open>The actions of the loop from iteration \<open>i\<close>: those of this iteration, and those of
  the rest of the loop when it goes on.\<close>

lemma trace_attempts:
  "trace (attempts c backend url dest dest_tmp i sf fs) =
     (if int i < HTTP_CONN_RETRIES c
      then (let a = try_block c (backend i) url dest dest_tmp sf fs
            in (if i > 0 then [Sleep (pause_sec i)] else []) @ requests a @
               (case raised a of
                  Some (RequestException resp) \<Rightarrow>
                    if status_code_of resp = 404 \<or> int i = HTTP_CONN_RETRIES c - 1 then []
                    else trace (attempts c backend url dest dest_tmp (Suc i)
                                  (size_final_after a) (fs_after a))
                | _ \<Rightarrow> []))
      else [])"
  by (subst attempts.simps) (auto simp: Let_def split: option.splits exn.splits)

lemma ranges_attempts:
  "ranges (trace (attempts c backend url dest dest_tmp i sf fs)) =
     (if int i < HTTP_CONN_RETRIES c
      then (case stat_size fs dest_tmp of
              Inl _ \<Rightarrow> []
            | Inr n \<Rightarrow>
                (if sf \<noteq> - 1 then Some (int n, sf) else None) #
                (let a = try_block c (backend i) url dest dest_tmp sf fs
                 in case raised a of
                      Some (RequestException resp) \<Rightarrow>
                        if status_code_of resp = 404 \<or> int i = HTTP_CONN_RETRIES c - 1 then []
                        else ranges (trace (attempts c backend url dest dest_tmp (Suc i)
                                       (if sf = - 1 then reported (backend i) else sf) (fs_after a)))
                    | _ \<Rightarrow> []))
      else [])"
  by (subst trace_attempts)
     (auto simp: Let_def try_block_requests try_block_size_final try_block_stat_fails
       split: sum.splits option.splits exn.splits)

lemma known_total_kept:
  assumes "sf \<noteq> - 1"
  shows "list_all (\<lambda>rh. map_option snd rh = Some sf)
           (ranges (trace (attempts c backend url dest dest_tmp i sf fs)))"
proof (induction "nat (HTTP_CONN_RETRIES c - int i)" arbitrary: i fs)
  case 0
  then show ?case by (subst ranges_attempts) simp
next
  case (Suc m)
  have rest: "list_all (\<lambda>rh. map_option snd rh = Some sf)
      (ranges (trace (attempts c backend url dest dest_tmp (Suc i) sf fs')))" for fs'
    by (rule Suc.hyps(1)) (use Suc.hyps(2) in simp)
  show ?case
    by (subst ranges_attempts)
       (use assms rest in \<open>simp add: Let_def split: sum.splits option.splits exn.splits\<close>)
qed

lemma unknown_total_never:
  assumes "\<forall>k. i \<le> k \<longrightarrow> reported (backend k) = - 1"
  shows "list_all (\<lambda>rh. rh = None)
           (ranges (trace (attempts c backend url dest dest_tmp i (- 1) fs)))"
  using assms
proof (induction "nat (HTTP_CONN_RETRIES c - int i)" arbitrary: i fs)
  case 0
  then show ?case by (subst ranges_attempts) simp
next
  case (Suc m)
  have rep: "reported (backend i) = - 1" using Suc.prems by simp
  have rest: "list_all (\<lambda>rh. rh = None)
      (ranges (trace (attempts c backend url dest dest_tmp (Suc i) (- 1) fs')))" for fs'
    by (rule Suc.hyps(1)) (use Suc.hyps(2) Suc.prems in simp_all)
  show ?case
    by (subst ranges_attempts)
       (use rest rep in \<open>simp add: Let_def split: sum.splits option.splits exn.splits\<close>)
qed

lemma full_then_ranged_Nil: "full_then_ranged k tot []"
  by (simp add: full_then_ranged_def)

lemma full_then_ranged_0:
  "list_all (\<lambda>rh. map_option snd rh = Some tot) rs \<Longrightarrow> full_then_ranged 0 tot (None # rs)"
  by (simp add: full_then_ranged_def)

lemma full_then_ranged_Suc:
  "full_then_ranged k tot rs \<Longrightarrow> full_then_ranged (Suc k) tot (None # rs)"
  by (simp add: full_then_ranged_def)

lemma unknown_total_captured:
  assumes "\<forall>k'. i \<le> k' \<and> k' < k \<longrightarrow> reported (backend k') = - 1"
    and "reported (backend k) \<noteq> - 1" and "i \<le> k"
  shows "full_then_ranged (k - i) (reported (backend k))
           (ranges (trace (attempts c backend url dest dest_tmp i (- 1) fs)))"
  using assms
proof (induction "k - i" arbitrary: i fs)
  case 0
  then have ik: "i = k" by simp
  have later: "list_all (\<lambda>rh. map_option snd rh = Some (reported (backend k)))
      (ranges (trace (attempts c backend url dest dest_tmp (Suc k) (reported (backend k)) fs')))"
    for fs'
    using "0.prems"(2) by (rule known_total_kept)
  show ?case
    unfolding ik
    by (subst ranges_attempts)
       (use later in \<open>simp add: Let_def full_then_ranged_Nil full_then_ranged_0
          split: sum.splits option.splits exn.splits\<close>)
next
  case (Suc m)
  then have ik: "i < k" by simp
  have rep: "reported (backend i) = - 1" using Suc.prems(1) ik by simp
  have rest: "full_then_ranged (k - Suc i) (reported (backend k))
      (ranges (trace (attempts c backend url dest dest_tmp (Suc i) (- 1) fs')))" for fs'
    by (rule Suc.hyps(1)) (use Suc.hyps(2) Suc.prems ik in simp_all)
  have diff: "k - i = Suc (k - Suc i)" using ik by simp
  show ?case
    unfolding diff
    by (subst ranges_attempts)
       (use rest rep in \<open>simp add: Let_def full_then_ranged_Nil full_then_ranged_Suc
          split: sum.splits option.splits exn.splits\<close>)
qed


lemma try_block_appends:
  assumes "fs dest_tmp = Some (File b)"
    and "\<not> (400 \<le> status_code \<and> status_code < 600)"
  shows "(raised (try_block c (Response status_code cl chunks finished) url dest dest_tmp sf fs) = None \<longrightarrow>
            fs_after (try_block c (Response status_code cl chunks finished) url dest dest_tmp sf fs)
              dest = Some (File (b @ received chunks))) \<and>
         (raised (try_block c (Response status_code cl chunks finished) url dest dest_tmp sf fs) \<noteq> None \<longrightarrow>
            fs_after (try_block c (Response status_code cl chunks finished) url dest dest_tmp sf fs)
              dest_tmp = Some (File (b @ received chunks)))"
  using assms
  by (auto simp: try_block_def Let_def stat_size_def open_ab_def rename_def
      split: sum.splits option.splits node.splits)

text \<open>
  C3, with the capture of the expected total put right. Let iteration \<open>i\<close> of the loop
  find the temporary file with the bytes \<open>b\<close>. Its first actions are the pause (when
  \<open>i > 0\<close>) and one request, which carries the header \<^verbatim>\<open>Range: bytes=n-size_final\<close>
  with \<open>n\<close> the size of \<open>b\<close> when \<open>size_final\<close> is known (is not \<open>-1\<close>), and no such header
  otherwise. After the attempt \<open>size_final\<close> is what it was when it was known, and is
  what the reply reports otherwise. When the reply is a response without an error
  status, the received bytes are appended: afterwards \<open>b\<close> followed by them is the content
  of the temporary file, or of the final file when the attempt succeeded.

  For the whole loop: a known \<open>size_final\<close> is the end of the range of every later
  request. So in a run of \<open>robust_get_sync\<close>, if attempt \<open>k\<close> is the first whose reply
  reports a length, the requests of the attempts up to \<open>k\<close> have no range and all later
  ones end at that length, whatever \<open>k\<close> is; and if no reply reports a length, no request
  has a range.
\<close>

theorem range_and_capture:
  "(int i < HTTP_CONN_RETRIES c \<and> fs dest_tmp = Some (File b) \<longrightarrow>
      prefix ((if i > 0 then [Sleep (pause_sec i)] else []) @
              [Get url (HTTP_TIMEOUT_SEC c)
                 (if size_final \<noteq> - 1 then Some (int (length b), size_final) else None)])
        (trace (attempts c backend url dest dest_tmp i size_final fs)) \<and>
      size_final_after (try_block c (backend i) url dest dest_tmp size_final fs) =
        (if size_final = - 1 then reported (backend i) else size_final) \<and>
      (\<forall>status_code cl chunks finished.
         backend i = Response status_code cl chunks finished \<and>
         \<not> (400 \<le> status_code \<and> status_code < 600) \<longrightarrow>
         (let a = try_block c (backend i) url dest dest_tmp size_final fs
          in (raised a = None \<longrightarrow> fs_after a dest = Some (File (b @ received chunks))) \<and>
             (raised a \<noteq> None \<longrightarrow> fs_after a dest_tmp = Some (File (b @ received chunks)))))) \<and>
   (size_final \<noteq> - 1 \<longrightarrow>
      list_all (\<lambda>rh. map_option snd rh = Some size_final)
        (ranges (trace (attempts c backend url dest dest_tmp i size_final fs)))) \<and>
   (reported (backend k) \<noteq> - 1 \<and> (\<forall>k' < k. reported (backend k') = - 1) \<longrightarrow>
      full_then_ranged k (reported (backend k))
        (ranges (trace (robust_get_sync c backend url dest dest_tmp fs)))) \<and>
   ((\<forall>k. reported (backend k) = - 1) \<longrightarrow>
      list_all (\<lambda>rh. rh = None) (ranges (trace (robust_get_sync c backend url dest dest_tmp fs))))"
proof -
  have request: "prefix ((if i > 0 then [Sleep (pause_sec i)] else []) @
              [Get url (HTTP_TIMEOUT_SEC c)
                 (if size_final \<noteq> - 1 then Some (int (length b), size_final) else None)])
        (trace (attempts c backend url dest dest_tmp i size_final fs))"
    if "int i < HTTP_CONN_RETRIES c" "fs dest_tmp = Some (File b)"
    by (subst trace_attempts) (use that in \<open>simp add: Let_def try_block_requests stat_size_def\<close>)
  have capture: "size_final_after (try_block c (backend i) url dest dest_tmp size_final fs) =
        (if size_final = - 1 then reported (backend i) else size_final)"
    if "fs dest_tmp = Some (File b)"
    using that by (simp add: try_block_size_final stat_size_def)
  have append: "(raised (try_block c (backend i) url dest dest_tmp size_final fs) = None \<longrightarrow>
        fs_after (try_block c (backend i) url dest dest_tmp size_final fs) dest =
          Some (File (b @ received chunks))) \<and>
      (raised (try_block c (backend i) url dest dest_tmp size_final fs) \<noteq> None \<longrightarrow>
        fs_after (try_block c (backend i) url dest dest_tmp size_final fs) dest_tmp =
          Some (File (b @ received chunks)))"
    if "fs dest_tmp = Some (File b)" "backend i = Response status_code cl chunks finished"
      "\<not> (400 \<le> status_code \<and> status_code < 600)"
    for status_code cl chunks finished
    unfolding that(2) using that(1,3) by (rule try_block_appends)
  have kept: "list_all (\<lambda>rh. map_option snd rh = Some size_final)
        (ranges (trace (attempts c backend url dest dest_tmp i size_final fs)))"
    if "size_final \<noteq> - 1"
    using that by (rule known_total_kept)
  have captured: "full_then_ranged k (reported (backend k))
        (ranges (trace (robust_get_sync c backend url dest dest_tmp fs)))"
    if "reported (backend k) \<noteq> - 1" "\<forall>k' < k. reported (backend k') = - 1"
    using unknown_total_captured [of 0 k backend c url dest dest_tmp fs] that
    by (simp add: robust_get_sync_def)
  have never: "list_all (\<lambda>rh. rh = None)
      (ranges (trace (robust_get_sync c backend url dest dest_tmp fs)))"
    if "\<forall>k. reported (backend k) = - 1"
    using unknown_total_never [of 0 backend c url dest dest_tmp fs] that
    by (simp add: robust_get_sync_def)
  show ?thesis
    unfolding Let_def using request capture append kept captured never by blast
qed

theorem range_and_capture_witness:
  "int 2 < HTTP_CONN_RETRIES CONF \<and>
   [''d'' \<mapsto> Dir, ''d/f.tmp'' \<mapsto> File ''abcd''] ''d/f.tmp'' = Some (File ''abcd'') \<and>
   reported (late 1) \<noteq> - 1 \<and> reported (late 0) = - 1 \<and>
   prefix [Sleep (pause_sec 2), Get ''u'' 15 (Some (4, 10))]
     (trace (attempts CONF late ''u'' ''d/f'' ''d/f.tmp'' 2 10
        [''d'' \<mapsto> Dir, ''d/f.tmp'' \<mapsto> File ''abcd''])) \<and>
   full_then_ranged 1 10 (ranges (trace (robust_get_sync CONF late ''u'' ''d/f'' ''d/f.tmp'' fs0)))"
proof -
  let ?fs = "[''d'' \<mapsto> Dir, ''d/f.tmp'' \<mapsto> File ''abcd'']"
  have less: "int 2 < HTTP_CONN_RETRIES CONF" by (simp add: CONF_def)
  have tmp: "?fs ''d/f.tmp'' = Some (File ''abcd'')" by simp
  have r1: "reported (late 1) = 10" by (simp add: reported_def late_def size_partial_of_def)
  have r0: "reported (late 0) = - 1" by (simp add: reported_def late_def)
  have before: "\<forall>k' < 1. reported (late k') = - 1" using r0 by simp
  have timeout: "HTTP_TIMEOUT_SEC CONF = 15" by (simp add: CONF_def)
  note rule = range_and_capture [where i = 2 and c = CONF and fs = ?fs and dest_tmp = "''d/f.tmp''"
      and b = "''abcd''" and url = "''u''" and size_final = 10 and backend = late and k = 1
      and dest = "''d/f''"]
  from rule less tmp timeout
  have "prefix [Sleep (pause_sec 2), Get ''u'' 15 (Some (4, 10))]
     (trace (attempts CONF late ''u'' ''d/f'' ''d/f.tmp'' 2 10 ?fs))"
    by simp
  moreover
  note rule' = range_and_capture [where c = CONF and fs = fs0 and dest_tmp = "''d/f.tmp''"
      and url = "''u''" and backend = late and k = 1 and dest = "''d/f''"]
  from rule' r1 before
  have "full_then_ranged 1 10 (ranges (trace (robust_get_sync CONF late ''u'' ''d/f'' ''d/f.tmp'' fs0)))"
    by simp
  ultimately show ?thesis using less tmp r1 r0 by simp
qed

text \<open>
  The expected total is not captured on the first attempt only. Here the first attempt
  gets no response, the second one reports 10 bytes and sends 4, and the third request
  asks for the bytes from 4 to 10.
\<close>

theorem total_captured_on_second_attempt:
  "late 0 = Fails None \<and>
   late 1 = Response 200 (Some 10) [''abcd''] False \<and>
   late 2 = Response 206 (Some 6) [''efghij''] True \<and>
   outcome (robust_get_sync CONF late ''u'' ''d/f'' ''d/f.tmp'' fs0) = Returns True \<and>
   trace (robust_get_sync CONF late ''u'' ''d/f'' ''d/f.tmp'' fs0) =
     [Get ''u'' 15 None, Sleep 0.4, Get ''u'' 15 None, Sleep 0.56, Get ''u'' 15 (Some (4, 10))] \<and>
   final_fs (robust_get_sync CONF late ''u'' ''d/f'' ''d/f.tmp'' fs0) ''d/f'' =
     Some (File ''abcdefghij'')"
  by (simp add: robust_get_sync_def attempts.simps [of _ _ _ _ _ 0] attempts.simps [of _ _ _ _ _ "Suc 0"]
      attempts.simps [of _ _ _ _ _ "Suc (Suc 0)"] late_def fs0_def CONF_def pause_sec_def
      try_block_def stat_size_def open_ab_def size_partial_of_def received_def status_code_of_def
      rename_def parent_err_def dirname_def rfind_sep_def rstrip_sep_def after_def Let_def)

subsection \<open>Waiting for a download in progress\<close>


lemma after_Nil [simp]: "after [] r = r"
  by (simp add: after_def)



lemma timed_out_deadline:
  "d \<noteq> 0 \<Longrightarrow> timed_out (Some d) time0 now = (now - time0 > d)"
  by (simp add: timed_out_def)

lemma timed_out_none: "\<not> timed_out None time0 now" "\<not> timed_out (Some 0) time0 now"
  by (simp_all add: timed_out_def)

lemma robust_get_waits:
  "\<not> isfile fs (dest @ ''.404'') \<Longrightarrow> \<not> isfile fs dest \<Longrightarrow> isfile fs (dest @ ''.tmp'') \<Longrightarrow>
   robust_get c e url dest wait_timeout fs =
     wait_loop wait_timeout (clock0 e) (dest @ ''.tmp'') fs (wakeups e)"
  by (simp add: robust_get_def)





subsection \<open>Creating the directory\<close>

lemma rfind_sep_suffix:
  assumes "CHR ''/'' \<notin> set s"
  shows "rfind_sep (p @ s) = rfind_sep p"
proof -
  have "takeWhile (\<lambda>c. c \<noteq> CHR ''/'') (rev s @ rev p) =
      rev s @ takeWhile (\<lambda>c. c \<noteq> CHR ''/'') (rev p)"
    by (rule takeWhile_append2) (use assms in auto)
  then show ?thesis by (simp add: rfind_sep_def)
qed

lemma rfind_sep_le: "rfind_sep p \<le> length p"
  by (simp add: rfind_sep_def)

lemma dirname_suffix:
  assumes "CHR ''/'' \<notin> set s"
  shows "dirname (p @ s) = dirname p"
  using rfind_sep_le [of p] by (simp add: dirname_def rfind_sep_suffix [OF assms])

lemma dirname_tmp: "dirname (dest @ ''.tmp'') = dirname dest"
  by (rule dirname_suffix) simp

lemma robust_get_absent:
  assumes "\<not> isfile fs (dest @ ''.404'')" and "\<not> isfile fs dest"
    and "\<not> isfile fs (dest @ ''.tmp'')"
  shows "robust_get c e url dest wait_timeout fs =
     (case ensure_dir e fs (dirname dest) of
        (Some exc_errno, fs1) \<Rightarrow> \<lparr>outcome = Raises exc_errno, final_fs = fs1, trace = []\<rparr>
      | (None, fs1) \<Rightarrow>
          (case open_wb fs1 (dest @ ''.tmp'') of
             Inl exc_errno \<Rightarrow> \<lparr>outcome = Raises exc_errno, final_fs = fs1, trace = []\<rparr>
           | Inr fs2 \<Rightarrow>
               after [DeferToThread url dest (dest @ ''.tmp'')]
                 (if truthy wait_timeout
                  then \<lparr>outcome = Returns MUST_WAIT, final_fs = fs2, trace = []\<rparr>
                  else
                    (let d = robust_get_sync c (server e) url dest (dest @ ''.tmp'') fs2
                     in case outcome d of
                          Returns _ \<Rightarrow> \<lparr>outcome = Returns END_FETCH,
                                         final_fs = final_fs d, trace = trace d\<rparr>
                        | Raises exc_errno \<Rightarrow> \<lparr>outcome = Raises exc_errno,
                                                 final_fs = final_fs d, trace = trace d\<rparr>
                        | Suspended \<Rightarrow> \<lparr>outcome = Suspended,
                                        final_fs = final_fs d, trace = trace d\<rparr>))))"
  using assms by (simp add: robust_get_def Let_def)

text \<open>
  C9, with the error number taken into account. Let \<open>robust_get\<close> find neither marker
  nor final file nor placeholder, and let \<^verbatim>\<open>os.makedirs\<close> of the directory of \<open>dest\<close>
  end with the error \<open>err\<close> (or none) and the filesystem \<open>fs1\<close>.

  An error is raised again, with nothing else done, when the directory does not exist
  afterwards or when the error is not \<^verbatim>\<open>EEXIST\<close>. The error \<^verbatim>\<open>EEXIST\<close> with the
  directory existing afterwards (as when another caller has just created it) is
  tolerated: the call goes on exactly as when \<^verbatim>\<open>os.makedirs\<close> had succeeded. Then, with
  a timeout and when the placeholder path is not a directory, the placeholder is
  created, the download is handed to a worker thread, and the call returns
  \<open>MUST_WAIT\<close>.
\<close>

theorem makedirs_error_rule:
  assumes "\<not> isfile fs (dest @ ''.404'')" and "\<not> isfile fs dest"
    and "\<not> isfile fs (dest @ ''.tmp'')"
    and "os_makedirs e fs (dirname dest) = (err, fs1)"
  shows
  "(\<forall>exc_errno. err = Some exc_errno \<and> (\<not> isdir fs1 (dirname dest) \<or> exc_errno \<noteq> EEXIST) \<longrightarrow>
      robust_get c e url dest wait_timeout fs =
        \<lparr>outcome = Raises exc_errno, final_fs = fs1, trace = []\<rparr>) \<and>
   (err = Some EEXIST \<and> isdir fs1 (dirname dest) \<longrightarrow>
      robust_get c e url dest wait_timeout fs =
        robust_get c (e\<lparr>os_makedirs := (\<lambda>fs' d. (None, fs1))\<rparr>) url dest wait_timeout fs) \<and>
   ((err = None \<or> err = Some EEXIST) \<and> isdir fs1 (dirname dest) \<and>
    \<not> isdir fs1 (dest @ ''.tmp'') \<and> truthy wait_timeout \<longrightarrow>
      robust_get c e url dest wait_timeout fs =
        \<lparr>outcome = Returns MUST_WAIT, final_fs = fs1(dest @ ''.tmp'' \<mapsto> File []),
         trace = [DeferToThread url dest (dest @ ''.tmp'')]\<rparr>)"
proof -
  note get = robust_get_absent [OF assms(1-3)]
  have raises: "robust_get c e url dest wait_timeout fs =
        \<lparr>outcome = Raises exc_errno, final_fs = fs1, trace = []\<rparr>"
    if "err = Some exc_errno" "\<not> isdir fs1 (dirname dest) \<or> exc_errno \<noteq> EEXIST" for exc_errno
    unfolding get using that assms(4) by (auto simp: ensure_dir_def)
  have tolerated: "robust_get c e url dest wait_timeout fs =
        robust_get c (e\<lparr>os_makedirs := (\<lambda>fs' d. (None, fs1))\<rparr>) url dest wait_timeout fs"
    if "err = Some EEXIST" "isdir fs1 (dirname dest)"
    unfolding get robust_get_absent [OF assms(1-3), of c "e\<lparr>os_makedirs := (\<lambda>fs' d. (None, fs1))\<rparr>"]
    using that assms(4) by (simp add: ensure_dir_def cong: sum.case_cong if_cong)
  have placeholder: "robust_get c e url dest wait_timeout fs =
        \<lparr>outcome = Returns MUST_WAIT, final_fs = fs1(dest @ ''.tmp'' \<mapsto> File []),
         trace = [DeferToThread url dest (dest @ ''.tmp'')]\<rparr>"
    if "err = None \<or> err = Some EEXIST" "isdir fs1 (dirname dest)"
      "\<not> isdir fs1 (dest @ ''.tmp'')" "truthy wait_timeout"
  proof -
    have dir: "ensure_dir e fs (dirname dest) = (None, fs1)"
      using that(1,2) assms(4) by (auto simp: ensure_dir_def)
    have "parent_err fs1 (dest @ ''.tmp'') = None"
      using that(2) by (auto simp: parent_err_def dirname_tmp isdir_def Let_def
          split: option.splits node.splits)
    then have "open_wb fs1 (dest @ ''.tmp'') = Inr (fs1(dest @ ''.tmp'' \<mapsto> File []))"
      using that(3) by (auto simp: open_wb_def isdir_def split: option.splits node.splits)
    then show ?thesis unfolding get using dir that(4) by (simp add: after_def)
  qed
  show ?thesis using raises tolerated placeholder by blast
qed


theorem makedirs_error_rule_witness:
  "\<not> isfile ([''d'' \<mapsto> Dir] :: bytes fs) (''d/f'' @ ''.404'') \<and>
   \<not> isfile ([''d'' \<mapsto> Dir] :: bytes fs) ''d/f'' \<and>
   \<not> isfile ([''d'' \<mapsto> Dir] :: bytes fs) (''d/f'' @ ''.tmp'') \<and>
   os_makedirs env0 [''d'' \<mapsto> Dir] (dirname ''d/f'') = (Some EEXIST, [''d'' \<mapsto> Dir]) \<and>
   isdir ([''d'' \<mapsto> Dir] :: bytes fs) (dirname ''d/f'') \<and>
   robust_get CONF env0 ''u'' ''d/f'' (Some 12) [''d'' \<mapsto> Dir] =
     \<lparr>outcome = Returns MUST_WAIT, final_fs = [''d'' \<mapsto> Dir, ''d/f.tmp'' \<mapsto> File []],
      trace = [DeferToThread ''u'' ''d/f'' ''d/f.tmp'']\<rparr> \<and>
   os_makedirs env0 [''d'' \<mapsto> File ''x''] (dirname ''d/f'') = (Some EEXIST, [''d'' \<mapsto> File ''x'']) \<and>
   \<not> isdir [''d'' \<mapsto> File ''x''] (dirname ''d/f'') \<and>
   robust_get CONF env0 ''u'' ''d/f'' (Some 12) [''d'' \<mapsto> File ''x''] =
     \<lparr>outcome = Raises EEXIST, final_fs = [''d'' \<mapsto> File ''x''], trace = []\<rparr>"
proof -
  let ?dir = "[''d'' \<mapsto> Dir] :: bytes fs"
  let ?file = "[''d'' \<mapsto> File ''x''] :: bytes fs"
  have dn: "dirname ''d/f'' = ''d''" by (simp add: dirname_def rfind_sep_def rstrip_sep_def)
  have a1: "\<not> isfile ?dir (''d/f'' @ ''.404'')" and a2: "\<not> isfile ?dir ''d/f''"
    and a3: "\<not> isfile ?dir (''d/f'' @ ''.tmp'')"
    and b1: "\<not> isfile ?file (''d/f'' @ ''.404'')" and b2: "\<not> isfile ?file ''d/f''"
    and b3: "\<not> isfile ?file (''d/f'' @ ''.tmp'')"
    by (simp_all add: isfile_def)
  have mk_dir: "os_makedirs env0 ?dir (dirname ''d/f'') = (Some EEXIST, ?dir)"
    by (simp add: dn env0_def makedirs_leaf_def mkdir_def)
  have mk_file: "os_makedirs env0 ?file (dirname ''d/f'') = (Some EEXIST, ?file)"
    by (simp add: dn env0_def makedirs_leaf_def mkdir_def)
  have is_dir: "isdir ?dir (dirname ''d/f'')" by (simp add: dn isdir_def)
  have no_dir: "\<not> isdir ?file (dirname ''d/f'')" by (simp add: dn isdir_def)
  have tmp_no_dir: "\<not> isdir ?dir (''d/f'' @ ''.tmp'')" by (simp add: isdir_def)
  have tr: "truthy (Some 12)" by (simp add: truthy_def)
  have "robust_get CONF env0 ''u'' ''d/f'' (Some 12) ?dir =
     \<lparr>outcome = Returns MUST_WAIT, final_fs = ?dir(''d/f'' @ ''.tmp'' \<mapsto> File []),
      trace = [DeferToThread ''u'' ''d/f'' (''d/f'' @ ''.tmp'')]\<rparr>"
    using makedirs_error_rule [OF a1 a2 a3 mk_dir, of CONF "''u''" "Some 12"] is_dir tmp_no_dir tr
    by blast
  then have "robust_get CONF env0 ''u'' ''d/f'' (Some 12) ?dir =
     \<lparr>outcome = Returns MUST_WAIT, final_fs = [''d'' \<mapsto> Dir, ''d/f.tmp'' \<mapsto> File []],
      trace = [DeferToThread ''u'' ''d/f'' ''d/f.tmp'']\<rparr>"
    by simp
  moreover have "robust_get CONF env0 ''u'' ''d/f'' (Some 12) ?file =
     \<lparr>outcome = Raises EEXIST, final_fs = ?file, trace = []\<rparr>"
    using makedirs_error_rule [OF b1 b2 b3 mk_file, of CONF "''u''" "Some 12"] no_dir
    by blast
  ultimately show ?thesis
    using a1 a2 a3 mk_dir mk_file is_dir no_dir by simp
qed

text \<open>
  That the directory exists is not enough. On a system that reports \<^verbatim>\<open>EROFS\<close> for a
  read-only filesystem before it looks at the target, the directory exists and the
  error is raised again.
\<close>

theorem other_errno_with_directory_raises:
  "isdir ([''d'' \<mapsto> Dir] :: bytes fs) (dirname ''d/f'') \<and>
   os_makedirs env_rofs [''d'' \<mapsto> Dir] (dirname ''d/f'') = (Some EROFS, [''d'' \<mapsto> Dir]) \<and>
   robust_get CONF env_rofs ''u'' ''d/f'' (Some 12) [''d'' \<mapsto> Dir] =
     \<lparr>outcome = Raises EROFS, final_fs = [''d'' \<mapsto> Dir], trace = []\<rparr>"
  by (simp add: robust_get_def ensure_dir_def env_rofs_def makedirs_rofs_def isfile_def isdir_def
      dirname_def rfind_sep_def rstrip_sep_def)

subsection \<open>The sweep\<close>

text \<open>The ages are whole seconds, rounded towards zero: for a duration that is not
  negative, an age exceeds it when at least one more second than the duration has
  passed.\<close>

lemma py_int_greater:
  assumes "0 \<le> d"
  shows "(py_int x > d) = (x \<ge> of_int d + 1)"
proof (cases "0 \<le> x")
  case True
  then show ?thesis by (simp add: py_int_def less_floor_iff)
next
  case False
  then have "\<lceil>x\<rceil> \<le> 0" by (simp add: ceiling_le_iff)
  with assms have "\<not> d < \<lceil>x\<rceil>" by linarith
  then have left: "\<not> py_int x > d" using False by (simp add: py_int_def)
  have "(0::real) \<le> of_int d" using assms by simp
  with False have "\<not> x \<ge> of_int d + 1" by linarith
  with left show ?thesis by simp
qed













subsection \<open>Calls during a download\<close>

text \<open>
  While the placeholder exists and there is neither marker nor final file, a call only
  waits: whatever its environment, it makes no request and hands no download to a worker
  thread. What several calls that run at the same time observe in the end is a matter of
  their interleaving, which this model of single calls does not describe.
\<close>

lemma wait_loop_only_waits:
  "\<forall>ev \<in> set (trace (wait_loop wait_timeout time0 dest_tmp fs ws)). ev = DeferLater 1"
  by (induction ws arbitrary: fs) (auto split: if_splits)

lemma placeholder_routes_to_wait:
  assumes "\<not> isfile fs (dest @ ''.404'')" and "\<not> isfile fs dest"
    and "isfile fs (dest @ ''.tmp'')"
  shows "\<forall>ev \<in> set (trace (robust_get c e url dest wait_timeout fs)). ev = DeferLater 1"
  unfolding robust_get_waits [OF assms] by (rule wait_loop_only_waits)

end
